theory Spec2Isabelle
  imports Complex_Main "HOL-Library.Sublist"
begin

section \<open>Numbers and their relational comparison\<close>

text \<open>
  Every numeric field of the components is a TypeScript \<open>number\<close>. Relational comparison
  of two such values is exact: it only has to tell a finite value, the two infinities
  and NaN apart, and no rounding takes place. A finite value is therefore kept as the
  real number it denotes (the two zeros compare equal and are one value here).
\<close>

datatype number = Fin real | PosInf | NegInf | NaN

text \<open>
  The abstract operation behind \<open><\<close>, \<open>>\<close>, \<open><=\<close> and \<open>>=\<close>: \<open>None\<close> is the
  answer "undefined" that a NaN operand gives.
\<close>

fun number_lessThan :: "number \<Rightarrow> number \<Rightarrow> bool option" where
  "number_lessThan NaN _ = None"
| "number_lessThan _ NaN = None"
| "number_lessThan (Fin x) (Fin y) = Some (x < y)"
| "number_lessThan PosInf _ = Some False"
| "number_lessThan _ PosInf = Some True"
| "number_lessThan _ NegInf = Some False"
| "number_lessThan NegInf _ = Some True"

text \<open>\<open>a >= b\<close>: false when \<open>a < b\<close> is true or undefined.\<close>

definition js_ge :: "number \<Rightarrow> number \<Rightarrow> bool" where
  "js_ge a b = (case number_lessThan a b of Some False \<Rightarrow> True | _ \<Rightarrow> False)"

text \<open>\<open>a <= b\<close>: false when \<open>b < a\<close> is true or undefined.\<close>

definition js_le :: "number \<Rightarrow> number \<Rightarrow> bool" where
  "js_le a b = (case number_lessThan b a of Some False \<Rightarrow> True | _ \<Rightarrow> False)"

text \<open>\<open>a > b\<close>: true when \<open>b < a\<close> is true.\<close>

definition js_gt :: "number \<Rightarrow> number \<Rightarrow> bool" where
  "js_gt a b = (case number_lessThan b a of Some True \<Rightarrow> True | _ \<Rightarrow> False)"

text \<open>
  Reading an array of numbers at an index. Past the end the read gives \<open>undefined\<close>,
  which every relational comparison converts to NaN.
\<close>

definition at_index :: "number list \<Rightarrow> nat \<Rightarrow> number" where
  "at_index xs i = (if i < length xs then xs ! i else NaN)"

section \<open>The filter criteria and the PropertyFilter component\<close>

record FilterCriteria =
  mwRange :: "number \<times> number"
  logpRange :: "number \<times> number"
  hbdMax :: number
  hbaMax :: number
  tpsaRange :: "number \<times> number"
  lipinskiCompliant :: bool
  qedMin :: number
  sasMax :: number

text \<open>
  The state of the PropertyFilter component: one array per slider and the switch. The
  fields carry the prefix \<open>pf_\<close> because the criteria record has the names already.
\<close>

record PropertyFilter =
  pf_mwRange :: "number list"
  pf_logpRange :: "number list"
  pf_hbdMax :: "number list"
  pf_hbaMax :: "number list"
  pf_tpsaRange :: "number list"
  pf_lipinskiCompliant :: bool
  pf_qedMin :: "number list"
  pf_sasMax :: "number list"

text \<open>The initial values of the \<open>useState\<close> calls.\<close>

definition initialFilter :: PropertyFilter where
  "initialFilter =
     \<lparr> pf_mwRange = [Fin 0, Fin 1000],
       pf_logpRange = [Fin (- 5), Fin 5],
       pf_hbdMax = [Fin 10],
       pf_hbaMax = [Fin 20],
       pf_tpsaRange = [Fin 0, Fin 200],
       pf_lipinskiCompliant = False,
       pf_qedMin = [Fin 0],
       pf_sasMax = [Fin 10] \<rparr>"

definition resetFilters :: "PropertyFilter \<Rightarrow> PropertyFilter" where
  "resetFilters p =
     p\<lparr> pf_mwRange := [Fin 0, Fin 1000],
       pf_logpRange := [Fin (- 5), Fin 5],
       pf_hbdMax := [Fin 10],
       pf_hbaMax := [Fin 20],
       pf_tpsaRange := [Fin 0, Fin 200],
       pf_lipinskiCompliant := False,
       pf_qedMin := [Fin 0],
       pf_sasMax := [Fin 10] \<rparr>"

text \<open>\<open>applyFilters\<close> builds the criteria value that is handed to \<open>onFilterChange\<close>.\<close>

definition applyFilters :: "PropertyFilter \<Rightarrow> FilterCriteria" where
  "applyFilters p =
     \<lparr> mwRange = (at_index (pf_mwRange p) 0, at_index (pf_mwRange p) 1),
       logpRange = (at_index (pf_logpRange p) 0, at_index (pf_logpRange p) 1),
       hbdMax = at_index (pf_hbdMax p) 0,
       hbaMax = at_index (pf_hbaMax p) 0,
       tpsaRange = (at_index (pf_tpsaRange p) 0, at_index (pf_tpsaRange p) 1),
       lipinskiCompliant = pf_lipinskiCompliant p,
       qedMin = at_index (pf_qedMin p) 0,
       sasMax = at_index (pf_sasMax p) 0 \<rparr>"

section \<open>The generator (VAE) module\<close>

record properties =
  mw :: number
  logp :: number
  hbd :: number
  hba :: number
  tpsa :: number

text \<open>
  The fields \<open>id\<close> and \<open>smiles\<close> of the interface are \<open>mol_id\<close> and \<open>mol_smiles\<close> here:
  \<open>id\<close> is the identity function of HOL, and \<open>smiles\<close> is a field of the analysis
  record below.
\<close>

record GeneratedMolecule =
  mol_id :: string
  mol_smiles :: string
  properties :: properties
  drugLikeness :: number

text \<open>
  The part of the module's state that filtering, rendering and export read or write.
  (\<open>showFilters\<close> of this module is \<open>vae_showFilters\<close>.)
\<close>

record VAEModule =
  generatedMolecules :: "GeneratedMolecule list"
  filteredMolecules :: "GeneratedMolecule list"
  vae_showFilters :: bool

text \<open>The predicate handed to \<open>generatedMolecules.filter\<close>.\<close>

definition vae_keep :: "FilterCriteria \<Rightarrow> GeneratedMolecule \<Rightarrow> bool" where
  "vae_keep criteria mol =
     (let mw = mw (properties mol);
          logp = logp (properties mol);
          hbd = hbd (properties mol);
          hba = hba (properties mol);
          tpsa = tpsa (properties mol)
      in js_ge mw (fst (mwRange criteria)) \<and> js_le mw (snd (mwRange criteria)) \<and>
         js_ge logp (fst (logpRange criteria)) \<and> js_le logp (snd (logpRange criteria)) \<and>
         js_le hbd (hbdMax criteria) \<and>
         js_le hba (hbaMax criteria) \<and>
         js_ge tpsa (fst (tpsaRange criteria)) \<and> js_le tpsa (snd (tpsaRange criteria)) \<and>
         js_ge (drugLikeness mol) (qedMin criteria))"

definition vae_handleFilterChange :: "FilterCriteria \<Rightarrow> VAEModule \<Rightarrow> VAEModule" where
  "vae_handleFilterChange criteria s =
     (let filtered = filter (vae_keep criteria) (generatedMolecules s)
      in s\<lparr>filteredMolecules := filtered\<rparr>)"

text \<open>The list the module renders.\<close>

definition vae_rendered :: "VAEModule \<Rightarrow> GeneratedMolecule list" where
  "vae_rendered s = (if vae_showFilters s then filteredMolecules s else generatedMolecules s)"

section \<open>The SMILES analyzer module\<close>

text \<open>
  The four boolean fields of \<open>lipinski\<close> carry the suffix \<open>_ok\<close>: their names are
  those of the numeric properties above.
\<close>

record lipinski =
  mw_ok :: bool
  logp_ok :: bool
  hbd_ok :: bool
  hba_ok :: bool
  violations :: number

record SMILESAnalysis =
  smiles :: string
  isValid :: bool
  molecularWeight :: number
  atomCount :: number
  bondCount :: number
  rings :: number
  aromaticRings :: number
  heteroatoms :: number
  rotatable :: number
  formula :: string
  lipinski :: lipinski

record SMILESModule =
  batchResults :: "SMILESAnalysis list"
  filteredResults :: "SMILESAnalysis list"
  showFilters :: bool

definition smiles_keep :: "FilterCriteria \<Rightarrow> SMILESAnalysis \<Rightarrow> bool" where
  "smiles_keep criteria result =
     (let mw = molecularWeight result
      in js_ge mw (fst (mwRange criteria)) \<and> js_le mw (snd (mwRange criteria)) \<and>
         js_le (heteroatoms result) (hbaMax criteria) \<and>
         js_le (violations (lipinski result))
               (if lipinskiCompliant criteria then Fin 0 else Fin 4))"

definition smiles_handleFilterChange :: "FilterCriteria \<Rightarrow> SMILESModule \<Rightarrow> SMILESModule" where
  "smiles_handleFilterChange criteria s =
     (let filtered = filter (smiles_keep criteria) (batchResults s)
      in s\<lparr>filteredResults := filtered\<rparr>)"

definition smiles_rendered :: "SMILESModule \<Rightarrow> SMILESAnalysis list" where
  "smiles_rendered s = (if showFilters s then filteredResults s else batchResults s)"

section \<open>Flat records and the CSV text\<close>

text \<open>
  The export rows are object literals whose values are strings, booleans and numbers.
  An object is kept as the list of its properties in the order in which
  \<open>Object.keys\<close> and \<open>Object.values\<close> enumerate them (the order of the literal).
\<close>

datatype jsval = Str string | Bool bool | Num number

type_synonym object = "(string \<times> jsval) list"

definition object_keys :: "object \<Rightarrow> string list" where
  "object_keys obj = map fst obj"

definition object_values :: "object \<Rightarrow> jsval list" where
  "object_values obj = map snd obj"

text \<open>
  The conversion of a value to text that \<open>join\<close> applies to each element. How a number
  is printed is the business of the language runtime, not of the components, so the
  printer is the parameter \<open>ns\<close>.
\<close>

definition toString :: "(number \<Rightarrow> string) \<Rightarrow> jsval \<Rightarrow> string" where
  "toString ns v =
     (case v of Str s \<Rightarrow> s | Bool b \<Rightarrow> (if b then ''true'' else ''false'') | Num n \<Rightarrow> ns n)"

text \<open>\<open>Array.prototype.join\<close> on an array of strings.\<close>

fun join :: "string list \<Rightarrow> string \<Rightarrow> string" where
  "join [] sep = []"
| "join [x] sep = x"
| "join (x # y # ys) sep = x @ sep @ join (y # ys) sep"

definition newline :: char where
  "newline = CHR 0x0A"

datatype js_error = TypeError

text \<open>
  The expression that builds \<open>csv\<close>, the same in both modules. \<open>data[0]\<close> of an empty
  array is \<open>undefined\<close>, and \<open>Object.keys\<close> of it throws.
\<close>

definition csv_text :: "(number \<Rightarrow> string) \<Rightarrow> object list \<Rightarrow> js_error + string" where
  "csv_text ns data =
     (case data of
        [] \<Rightarrow> Inl TypeError
      | d0 # _ \<Rightarrow>
          Inr (join (join (object_keys d0) '','' #
                     map (\<lambda>row. join (map (toString ns) (object_values row)) '','') data)
                    [newline]))"

section \<open>Export\<close>

text \<open>
  What an export ends in: one of the two destructive toasts, or the download of a file
  (its name and its text). Creating the blob and clicking the link belong to the browser.
\<close>

datatype export_error = NoDataToExport | ExportFailed

type_synonym download = "string \<times> string"

definition smiles_row :: "SMILESAnalysis \<Rightarrow> object" where
  "smiles_row result =
     [(''SMILES'', Str (smiles result)),
      (''Valid'', Bool (isValid result)),
      (''MolecularWeight'', Num (molecularWeight result)),
      (''Formula'', Str (formula result)),
      (''Atoms'', Num (atomCount result)),
      (''Bonds'', Num (bondCount result)),
      (''Rings'', Num (rings result)),
      (''AromaticRings'', Num (aromaticRings result)),
      (''Heteroatoms'', Num (heteroatoms result)),
      (''RotatableBonds'', Num (rotatable result)),
      (''LipinskiViolations'', Num (violations (lipinski result)))]"

text \<open>The constant \<open>data\<close> of \<open>exportResults\<close>.\<close>

definition smiles_export_data :: "SMILESModule \<Rightarrow> object list" where
  "smiles_export_data s = map smiles_row (batchResults s)"

text \<open>\<open>exportResults\<close> calls no setter: the state it returns is the one it was given.\<close>

definition smiles_exportResults ::
  "(number \<Rightarrow> string) \<Rightarrow> SMILESModule \<Rightarrow> SMILESModule \<times> (export_error + download)" where
  "smiles_exportResults ns s =
     (if length (batchResults s) = 0 then (s, Inl NoDataToExport)
      else (case csv_text ns (smiles_export_data s) of
              Inl _ \<Rightarrow> (s, Inl ExportFailed)
            | Inr csv \<Rightarrow> (s, Inr (''smiles_analysis_results.csv'', csv))))"

definition vae_row :: "GeneratedMolecule \<Rightarrow> object" where
  "vae_row mol =
     [(''SMILES'', Str (mol_smiles mol)),
      (''DrugLikeness'', Num (drugLikeness mol)),
      (''MolecularWeight'', Num (mw (properties mol))),
      (''LogP'', Num (logp (properties mol))),
      (''HBD'', Num (hbd (properties mol))),
      (''HBA'', Num (hba (properties mol))),
      (''TPSA'', Num (tpsa (properties mol)))]"

definition vae_export_data :: "VAEModule \<Rightarrow> object list" where
  "vae_export_data s = map vae_row (generatedMolecules s)"

definition vae_exportResults ::
  "(number \<Rightarrow> string) \<Rightarrow> VAEModule \<Rightarrow> VAEModule \<times> (export_error + download)" where
  "vae_exportResults ns s =
     (if length (generatedMolecules s) = 0 then (s, Inl NoDataToExport)
      else (case csv_text ns (vae_export_data s) of
              Inl _ \<Rightarrow> (s, Inl ExportFailed)
            | Inr csv \<Rightarrow> (s, Inr (''vae_generated_molecules.csv'', csv))))"

section \<open>A decimal printer\<close>

text \<open>
  An instance for the parameter \<open>ns\<close>: it prints a number that has a short finite
  decimal expansion the way the runtime prints it (\<open>46.07\<close>, \<open>-5\<close>, \<open>1000\<close>), and the
  three special values by their names.
\<close>

definition digit_char :: "nat \<Rightarrow> char" where
  "digit_char d = ''0123456789'' ! d"

function show_nat :: "nat \<Rightarrow> string" where
  "show_nat n = (if n < 10 then [digit_char n] else show_nat (n div 10) @ [digit_char (n mod 10)])"
  by pat_completeness auto
termination
  by (relation "measure id") auto

declare show_nat.simps [simp del]

fun frac_digits :: "nat \<Rightarrow> real \<Rightarrow> string" where
  "frac_digits 0 x = []"
| "frac_digits (Suc k) x =
     (if x = 0 then []
      else (let y = 10 * x; d = nat \<lfloor>y\<rfloor> in digit_char d # frac_digits k (y - of_nat d)))"

definition show_number :: "number \<Rightarrow> string" where
  "show_number n =
     (case n of
        NaN \<Rightarrow> ''NaN''
      | PosInf \<Rightarrow> ''Infinity''
      | NegInf \<Rightarrow> ''-Infinity''
      | Fin x \<Rightarrow>
          (let a = \<bar>x\<bar>; i = nat \<lfloor>a\<rfloor>; f = a - of_nat i
           in (if x < 0 then ''-'' else []) @ show_nat i @
              (if f = 0 then [] else ''.'' @ frac_digits 20 f)))"

section \<open>The contract in the words of the specification\<close>

text \<open>The generator profile: the six conjuncts, each bound written as the contract does.\<close>

definition generator_profile :: "FilterCriteria \<Rightarrow> GeneratedMolecule \<Rightarrow> bool" where
  "generator_profile c m =
     (js_le (fst (mwRange c)) (mw (properties m)) \<and> js_le (mw (properties m)) (snd (mwRange c)) \<and>
      js_le (fst (logpRange c)) (logp (properties m)) \<and>
      js_le (logp (properties m)) (snd (logpRange c)) \<and>
      js_le (hbd (properties m)) (hbdMax c) \<and>
      js_le (hba (properties m)) (hbaMax c) \<and>
      js_le (fst (tpsaRange c)) (tpsa (properties m)) \<and>
      js_le (tpsa (properties m)) (snd (tpsaRange c)) \<and>
      js_le (qedMin c) (drugLikeness m))"

text \<open>The analyzer profile: molecular weight, heteroatoms for acceptors, violations.\<close>

definition analyzer_profile :: "FilterCriteria \<Rightarrow> SMILESAnalysis \<Rightarrow> bool" where
  "analyzer_profile c r =
     (js_le (fst (mwRange c)) (molecularWeight r) \<and> js_le (molecularWeight r) (snd (mwRange c)) \<and>
      js_le (heteroatoms r) (hbaMax c) \<and>
      js_le (violations (lipinski r)) (Fin (if lipinskiCompliant c then 0 else 4)))"

text \<open>The default criteria, as the specification lists them.\<close>

definition default_criteria :: FilterCriteria where
  "default_criteria =
     \<lparr> mwRange = (Fin 0, Fin 1000), logpRange = (Fin (- 5), Fin 5), hbdMax = Fin 10,
       hbaMax = Fin 20, tpsaRange = (Fin 0, Fin 200), lipinskiCompliant = False,
       qedMin = Fin 0, sasMax = Fin 10 \<rparr>"

text \<open>
  The CSV text as the contract describes it: the header line, then one line per
  record, each after a line break.
\<close>

definition header_line :: "object \<Rightarrow> string" where
  "header_line obj = join (object_keys obj) '',''"

definition row_line :: "(number \<Rightarrow> string) \<Rightarrow> object \<Rightarrow> string" where
  "row_line ns obj = join (map (toString ns) (object_values obj)) '',''"

definition csv_lines :: "(number \<Rightarrow> string) \<Rightarrow> object list \<Rightarrow> string" where
  "csv_lines ns data = header_line (hd data) @ concat (map (\<lambda>row. newline # row_line ns row) data)"

text \<open>Splitting a text at its line breaks, as \<open>split\<close> with a one-character separator does.\<close>

fun split_lines :: "string \<Rightarrow> string list" where
  "split_lines [] = [[]]"
| "split_lines (c # cs) =
     (if c = newline then [] # split_lines cs
      else (case split_lines cs of l # ls \<Rightarrow> (c # l) # ls | [] \<Rightarrow> [[c]]))"

section \<open>Sample data\<close>

text \<open>The constant \<open>mockMolecules\<close> of the generator module.\<close>

definition mockMolecules :: "GeneratedMolecule list" where
  "mockMolecules =
     [\<lparr> mol_id = ''1'', mol_smiles = ''CC(=O)OC1=CC=CC=C1C(=O)O'',
         properties = \<lparr> mw = Fin 180.16, logp = Fin 1.19, hbd = Fin 1, hba = Fin 4,
                        tpsa = Fin 63.6 \<rparr>,
         drugLikeness = Fin 0.89 \<rparr>,
      \<lparr> mol_id = ''2'', mol_smiles = ''CN1CCN(CC1)C2=CC=C(C=C2)OC'',
         properties = \<lparr> mw = Fin 206.28, logp = Fin 1.84, hbd = Fin 0, hba = Fin 3,
                        tpsa = Fin 15.3 \<rparr>,
         drugLikeness = Fin 0.92 \<rparr>,
      \<lparr> mol_id = ''3'', mol_smiles = ''CC1=CC=C(C=C1)S(=O)(=O)NC2=CC=CC=N2'',
         properties = \<lparr> mw = Fin 248.30, logp = Fin 1.67, hbd = Fin 1, hba = Fin 4,
                        tpsa = Fin 68.4 \<rparr>,
         drugLikeness = Fin 0.76 \<rparr>]"

text \<open>A generator session that holds the three molecules, with the filter panel open.\<close>

definition generated_session :: VAEModule where
  "generated_session =
     \<lparr> generatedMolecules = mockMolecules, filteredMolecules = mockMolecules,
       vae_showFilters = True \<rparr>"

text \<open>
  Two analysis results of the shape \<open>mockAnalyzeSMILES\<close> returns (its numbers are
  random draws): one light molecule without violations, one heavy molecule with two.
\<close>

definition aspirin_result :: SMILESAnalysis where
  "aspirin_result =
     \<lparr> smiles = ''CC(=O)OC1=CC=CC=C1C(=O)O'', isValid = True, molecularWeight = Fin 180,
       atomCount = Fin 20, bondCount = Fin 24, rings = Fin 1, aromaticRings = Fin 1,
       heteroatoms = Fin 4, rotatable = Fin 3, formula = ''C12H16N0O4'',
       lipinski = \<lparr> mw_ok = True, logp_ok = True, hbd_ok = True, hba_ok = True,
                    violations = Fin 0 \<rparr> \<rparr>"

definition biphenyl_result :: SMILESAnalysis where
  "biphenyl_result =
     \<lparr> smiles = ''C1=CC=C(C=C1)C2=CC=CC=C2'', isValid = True, molecularWeight = Fin 520,
       atomCount = Fin 30, bondCount = Fin 36, rings = Fin 2, aromaticRings = Fin 2,
       heteroatoms = Fin 0, rotatable = Fin 1, formula = ''C18H24N1O0'',
       lipinski = \<lparr> mw_ok = False, logp_ok = True, hbd_ok = True, hba_ok = False,
                    violations = Fin 2 \<rparr> \<rparr>"

definition batch_session :: SMILESModule where
  "batch_session =
     \<lparr> batchResults = [aspirin_result, biphenyl_result], filteredResults = [],
       showFilters = True \<rparr>"

section \<open>Comparison lemmas\<close>

lemma js_ge_iff_le: "js_ge a b = js_le b a"
  by (simp add: js_ge_def js_le_def)

lemma js_le_Fin [simp]: "js_le (Fin x) (Fin y) = (x \<le> y)"
  by (auto simp: js_le_def split: bool.splits)

lemma js_gt_Fin [simp]: "js_gt (Fin x) (Fin y) = (y < x)"
  by (auto simp: js_gt_def split: bool.splits)

lemma js_le_NaN [simp]: "js_le NaN b = False" "js_le a NaN = False"
  by (cases b; simp add: js_le_def) (cases a; simp add: js_le_def)

lemma js_gt_not_le: "js_gt a b \<Longrightarrow> \<not> js_le a b"
  by (cases a; cases b; auto simp: js_gt_def js_le_def split: bool.splits)

lemma js_le_trans: "js_le a b \<Longrightarrow> js_le b c \<Longrightarrow> js_le a c"
  by (cases a; cases b; cases c; auto simp: js_le_def split: bool.splits)

lemma inverted_range_empty: "js_gt lo hi \<Longrightarrow> \<not> (js_ge x lo \<and> js_le x hi)"
  unfolding js_ge_iff_le using js_le_trans js_gt_not_le by blast

section \<open>The filter predicates against the contract\<close>

lemma generator_profile_keep: "vae_keep c m = generator_profile c m"
  by (simp add: vae_keep_def generator_profile_def js_ge_iff_le Let_def)

lemma analyzer_profile_keep: "smiles_keep c r = analyzer_profile c r"
  by (simp add: smiles_keep_def analyzer_profile_def js_ge_iff_le Let_def)

lemma le_zero_iff: "js_le v (Fin 0) \<longleftrightarrow> js_le v (Fin 4) \<and> \<not> js_gt v (Fin 0)"
  by (cases v) (auto simp: js_le_def js_gt_def split: bool.splits)

lemma vae_keep_lipinski: "vae_keep (c\<lparr>lipinskiCompliant := b\<rparr>) = vae_keep c"
  by (rule ext) (simp add: vae_keep_def)

lemma reset_is_default: "applyFilters (resetFilters p) = default_criteria"
  by (simp add: applyFilters_def resetFilters_def default_criteria_def at_index_def)

lemma initial_is_default: "applyFilters initialFilter = default_criteria"
  by (simp add: applyFilters_def initialFilter_def default_criteria_def at_index_def)

section \<open>Lemmas on the CSV text\<close>

lemma join_Cons: "join (x # xs) sep = x @ concat (map (\<lambda>y. sep @ y) xs)"
  by (induction xs arbitrary: x) simp_all

lemma csv_text_lines: "data \<noteq> [] \<Longrightarrow> csv_text ns data = Inr (csv_lines ns data)"
  by (cases data) (simp_all add: csv_text_def csv_lines_def header_line_def row_line_def join_Cons comp_def)

lemma join_no_newline:
  "\<forall>f \<in> set fs. c \<notin> set f \<Longrightarrow> c \<notin> set sep \<Longrightarrow> c \<notin> set (join fs sep)"
  by (induction fs sep rule: join.induct) auto

lemma count_rows:
  "\<forall>l \<in> set ls. newline \<notin> set l \<Longrightarrow>
   count_list (concat (map (\<lambda>l. newline # l) ls)) newline = length ls"
  by (induction ls) (auto simp: count_list_0_iff)

lemma split_lines_single: "newline \<notin> set l \<Longrightarrow> split_lines l = [l]"
  by (induction l) auto

lemma split_lines_line:
  "newline \<notin> set l \<Longrightarrow> split_lines (l @ newline # rest) = l # split_lines rest"
  by (induction l) auto

lemma split_rows:
  "newline \<notin> set h \<Longrightarrow> \<forall>l \<in> set ls. newline \<notin> set l \<Longrightarrow>
   split_lines (h @ concat (map (\<lambda>l. newline # l) ls)) = h # ls"
  by (induction ls arbitrary: h) (auto simp: split_lines_single split_lines_line)

lemma last_rows:
  "ls \<noteq> [] \<Longrightarrow> last ls \<noteq> [] \<Longrightarrow>
   last (h @ concat (map (\<lambda>l. newline # l) ls)) = last (last ls)"
  by (induction ls arbitrary: h) (auto)

lemma csv_lines_rows:
  "csv_lines ns data =
   header_line (hd data) @ concat (map (\<lambda>l. newline # l) (map (row_line ns) data))"
  by (simp add: csv_lines_def comp_def)

lemma csv_lines_shape:
  assumes "data \<noteq> []"
    and "newline \<notin> set (header_line (hd data))"
    and "\<forall>row \<in> set data. newline \<notin> set (row_line ns row)"
    and "row_line ns (last data) \<noteq> []"
  shows "count_list (csv_lines ns data) newline = length data"
    and "split_lines (csv_lines ns data) = header_line (hd data) # map (row_line ns) data"
    and "csv_lines ns data \<noteq> []"
    and "last (csv_lines ns data) \<noteq> newline"
proof -
  let ?ls = "map (row_line ns) data"
  have nl: "\<forall>l \<in> set ?ls. newline \<notin> set l"
    using assms(3) by simp
  show "count_list (csv_lines ns data) newline = length data"
    using count_rows [OF nl] assms(2) by (simp add: csv_lines_rows count_list_0_iff)
  show "split_lines (csv_lines ns data) = header_line (hd data) # map (row_line ns) data"
    using split_rows [OF assms(2) nl] by (simp add: csv_lines_rows)
  have ne: "?ls \<noteq> []" using assms(1) by simp
  have lne: "last ?ls \<noteq> []" using assms(1,4) by (simp add: last_map)
  show "csv_lines ns data \<noteq> []"
    using assms(1) by (cases data) (simp_all add: csv_lines_def)
  have "last (csv_lines ns data) = last (last ?ls)"
    using last_rows [OF ne lne] by (simp add: csv_lines_rows)
  moreover have "last (last ?ls) \<in> set (last ?ls)"
    using lne by simp
  moreover have "newline \<notin> set (last ?ls)"
    using nl ne last_in_set by blast
  ultimately show "last (csv_lines ns data) \<noteq> newline"
    by metis
qed

lemma smiles_header:
  "header_line (smiles_row r) =
   ''SMILES,Valid,MolecularWeight,Formula,Atoms,Bonds,Rings,AromaticRings,Heteroatoms,RotatableBonds,LipinskiViolations''"
  by (simp add: header_line_def smiles_row_def object_keys_def)

lemma vae_header:
  "header_line (vae_row m) = ''SMILES,DrugLikeness,MolecularWeight,LogP,HBD,HBA,TPSA''"
  by (simp add: header_line_def vae_row_def object_keys_def)

lemma smiles_row_line_nonempty: "row_line ns (smiles_row r) \<noteq> []"
  by (simp add: row_line_def smiles_row_def object_values_def)

lemma vae_row_line_nonempty: "row_line ns (vae_row m) \<noteq> []"
  by (simp add: row_line_def vae_row_def object_values_def)

lemma row_line_no_newline:
  "\<forall>v \<in> set (object_values row). newline \<notin> set (toString ns v) \<Longrightarrow>
   newline \<notin> set (row_line ns row)"
  unfolding row_line_def by (rule join_no_newline) (auto simp: newline_def)

lemma smiles_header_no_newline: "newline \<notin> set (header_line (smiles_row r))"
  by (simp add: smiles_header newline_def)

lemma vae_header_no_newline: "newline \<notin> set (header_line (vae_row r))"
  by (simp add: vae_header newline_def)

lemma smiles_export_eq:
  "snd (smiles_exportResults ns s) =
   (if batchResults s = [] then Inl NoDataToExport
    else Inr (''smiles_analysis_results.csv'', csv_lines ns (smiles_export_data s)))"
  by (simp add: smiles_exportResults_def csv_text_lines smiles_export_data_def)

lemma vae_export_eq:
  "snd (vae_exportResults ns s) =
   (if generatedMolecules s = [] then Inl NoDataToExport
    else Inr (''vae_generated_molecules.csv'', csv_lines ns (vae_export_data s)))"
  by (simp add: vae_exportResults_def csv_text_lines vae_export_data_def)

lemma smiles_export_state: "fst (smiles_exportResults ns s) = s"
  by (simp add: smiles_exportResults_def split: sum.splits)

lemma vae_export_state: "fst (vae_exportResults ns s) = s"
  by (simp add: vae_exportResults_def split: sum.splits)

section \<open>Properties of the filters\<close>

lemma subseq_index_map:
  "subseq xs ys \<Longrightarrow>
   \<exists>f. (\<forall>i<length xs. f i < length ys \<and> ys ! f i = xs ! i) \<and>
       (\<forall>i j. i < j \<and> j < length xs \<longrightarrow> f i < f j)"
proof (induction rule: list_emb.induct)
  case (list_emb_Nil ys)
  show ?case by simp
next
  case (list_emb_Cons xs ys y)
  then obtain f where f: "\<forall>i<length xs. f i < length ys \<and> ys ! f i = xs ! i"
    "\<forall>i j. i < j \<and> j < length xs \<longrightarrow> f i < f j" by blast
  show ?case
    by (rule exI [of _ "Suc \<circ> f"]) (use f in auto)
next
  case (list_emb_Cons2 x y xs ys)
  then obtain f where f: "\<forall>i<length xs. f i < length ys \<and> ys ! f i = xs ! i"
    "\<forall>i j. i < j \<and> j < length xs \<longrightarrow> f i < f j" by blast
  show ?case
    by (rule exI [of _ "case_nat 0 (Suc \<circ> f)"])
       (use f list_emb_Cons2.hyps(1) in \<open>auto simp: nth_Cons split: nat.splits\<close>)
qed

text \<open>
  Claim C5. Applying criteria leaves the source list (and the panel flag) of either
  module as it was and stores a new list: exactly the records the predicate keeps, a
  subsequence of the source list. Every stored record occurs in the source list, and
  there is a strictly increasing map from the positions of the stored list to the
  positions of the same records in the source list, so any two stored records stand in
  the order they have in the source list.
\<close>

theorem filter_stable:
  "generatedMolecules (vae_handleFilterChange c s) = generatedMolecules s \<and>
   vae_showFilters (vae_handleFilterChange c s) = vae_showFilters s \<and>
   filteredMolecules (vae_handleFilterChange c s) = filter (vae_keep c) (generatedMolecules s) \<and>
   subseq (filteredMolecules (vae_handleFilterChange c s)) (generatedMolecules s) \<and>
   set (filteredMolecules (vae_handleFilterChange c s)) \<subseteq> set (generatedMolecules s) \<and>
   (\<exists>f. (\<forall>i<length (filteredMolecules (vae_handleFilterChange c s)).
            f i < length (generatedMolecules s) \<and>
            generatedMolecules s ! f i = filteredMolecules (vae_handleFilterChange c s) ! i) \<and>
        (\<forall>i j. i < j \<and> j < length (filteredMolecules (vae_handleFilterChange c s)) \<longrightarrow>
            f i < f j)) \<and>
   batchResults (smiles_handleFilterChange c t) = batchResults t \<and>
   showFilters (smiles_handleFilterChange c t) = showFilters t \<and>
   filteredResults (smiles_handleFilterChange c t) = filter (smiles_keep c) (batchResults t) \<and>
   subseq (filteredResults (smiles_handleFilterChange c t)) (batchResults t) \<and>
   set (filteredResults (smiles_handleFilterChange c t)) \<subseteq> set (batchResults t) \<and>
   (\<exists>g. (\<forall>i<length (filteredResults (smiles_handleFilterChange c t)).
            g i < length (batchResults t) \<and>
            batchResults t ! g i = filteredResults (smiles_handleFilterChange c t) ! i) \<and>
        (\<forall>i j. i < j \<and> j < length (filteredResults (smiles_handleFilterChange c t)) \<longrightarrow>
            g i < g j))"
proof -
  have v: "filteredMolecules (vae_handleFilterChange c s) = filter (vae_keep c) (generatedMolecules s)"
    by (simp add: vae_handleFilterChange_def)
  have a: "filteredResults (smiles_handleFilterChange c t) = filter (smiles_keep c) (batchResults t)"
    by (simp add: smiles_handleFilterChange_def)
  have vs: "subseq (filteredMolecules (vae_handleFilterChange c s)) (generatedMolecules s)"
    by (simp add: v)
  have as: "subseq (filteredResults (smiles_handleFilterChange c t)) (batchResults t)"
    by (simp add: a)
  have v0: "generatedMolecules (vae_handleFilterChange c s) = generatedMolecules s"
    "vae_showFilters (vae_handleFilterChange c s) = vae_showFilters s"
    by (simp_all add: vae_handleFilterChange_def)
  have a0: "batchResults (smiles_handleFilterChange c t) = batchResults t"
    "showFilters (smiles_handleFilterChange c t) = showFilters t"
    by (simp_all add: smiles_handleFilterChange_def)
  have vset: "set (filteredMolecules (vae_handleFilterChange c s)) \<subseteq> set (generatedMolecules s)"
    by (simp add: v)
  have aset: "set (filteredResults (smiles_handleFilterChange c t)) \<subseteq> set (batchResults t)"
    by (simp add: a)
  from v a vs as v0 a0 vset aset subseq_index_map [OF vs] subseq_index_map [OF as]
  show ?thesis by (intro conjI)
qed

theorem filter_stable_witness:
  "generatedMolecules
     (vae_handleFilterChange (default_criteria\<lparr>mwRange := (Fin 200, Fin 1000)\<rparr>) generated_session) =
     mockMolecules \<and>
   filteredMolecules
     (vae_handleFilterChange (default_criteria\<lparr>mwRange := (Fin 200, Fin 1000)\<rparr>) generated_session) =
     [mockMolecules ! 1, mockMolecules ! 2] \<and>
   filteredResults
     (smiles_handleFilterChange (default_criteria\<lparr>mwRange := (Fin 200, Fin 1000)\<rparr>) batch_session) =
     [biphenyl_result]"
  using filter_stable [of "default_criteria\<lparr>mwRange := (Fin 200, Fin 1000)\<rparr>" generated_session
      batch_session]
  by (simp add: generated_session_def batch_session_def mockMolecules_def default_criteria_def
      vae_keep_def smiles_keep_def js_ge_iff_le aspirin_result_def biphenyl_result_def)

text \<open>
  Claim C1. In the generator module the stored list is the source list filtered by the
  generator profile: a molecule is in it if and only if it is in the source list and
  its weight, logP and TPSA lie within their ranges, its donors and acceptors do not
  exceed their maxima, and its drug-likeness is at least \<open>qedMin\<close>. Changing
  \<open>lipinskiCompliant\<close> and \<open>sasMax\<close> changes nothing.
\<close>

theorem vae_filter_characterization:
  "filteredMolecules (vae_handleFilterChange c s) =
     filter (generator_profile c) (generatedMolecules s) \<and>
   (m \<in> set (filteredMolecules (vae_handleFilterChange c s)) \<longleftrightarrow>
      m \<in> set (generatedMolecules s) \<and>
      js_le (fst (mwRange c)) (mw (properties m)) \<and> js_le (mw (properties m)) (snd (mwRange c)) \<and>
      js_le (fst (logpRange c)) (logp (properties m)) \<and>
      js_le (logp (properties m)) (snd (logpRange c)) \<and>
      js_le (hbd (properties m)) (hbdMax c) \<and>
      js_le (hba (properties m)) (hbaMax c) \<and>
      js_le (fst (tpsaRange c)) (tpsa (properties m)) \<and>
      js_le (tpsa (properties m)) (snd (tpsaRange c)) \<and>
      js_le (qedMin c) (drugLikeness m)) \<and>
   vae_handleFilterChange (c\<lparr>lipinskiCompliant := b, sasMax := x\<rparr>) s =
     vae_handleFilterChange c s"
proof -
  have keep: "vae_keep c = generator_profile c"
    by (rule ext) (rule generator_profile_keep)
  have same: "vae_keep (c\<lparr>lipinskiCompliant := b, sasMax := x\<rparr>) = vae_keep c"
    by (rule ext) (simp add: vae_keep_def)
  show ?thesis
    by (simp add: vae_handleFilterChange_def keep same) (simp add: generator_profile_def)
qed

theorem vae_filter_characterization_witness:
  "filteredMolecules
     (vae_handleFilterChange (default_criteria\<lparr>tpsaRange := (Fin 0, Fin 65)\<rparr>) generated_session) =
     [mockMolecules ! 0, mockMolecules ! 1] \<and>
   vae_handleFilterChange
     (default_criteria\<lparr>tpsaRange := (Fin 0, Fin 65), lipinskiCompliant := True, sasMax := Fin 1\<rparr>)
     generated_session =
   vae_handleFilterChange (default_criteria\<lparr>tpsaRange := (Fin 0, Fin 65)\<rparr>) generated_session"
  using vae_filter_characterization [where c = "default_criteria\<lparr>tpsaRange := (Fin 0, Fin 65)\<rparr>"
      and s = generated_session and b = True and x = "Fin 1"]
  by (simp add: generated_session_def mockMolecules_def default_criteria_def generator_profile_def)

text \<open>
  Claim C2. In the analyzer module the stored list is the source list filtered by the
  analyzer profile: a result is in it if and only if it is in the source list, its
  weight lies within \<open>mwRange\<close>, its heteroatoms do not exceed \<open>hbaMax\<close>, and
  its violations do not exceed 0 when \<open>lipinskiCompliant\<close> is set and 4 otherwise.
  Changing \<open>logpRange\<close>, \<open>hbdMax\<close>, \<open>tpsaRange\<close>, \<open>qedMin\<close> and \<open>sasMax\<close>
  changes nothing. With the flag set, a kept result whose violation count is not
  negative has none; with the flag clear, a kept result has at most 4.
\<close>

theorem smiles_filter_characterization:
  "filteredResults (smiles_handleFilterChange c t) =
     filter (analyzer_profile c) (batchResults t) \<and>
   (r \<in> set (filteredResults (smiles_handleFilterChange c t)) \<longleftrightarrow>
      r \<in> set (batchResults t) \<and>
      js_le (fst (mwRange c)) (molecularWeight r) \<and>
      js_le (molecularWeight r) (snd (mwRange c)) \<and>
      js_le (heteroatoms r) (hbaMax c) \<and>
      js_le (violations (lipinski r)) (if lipinskiCompliant c then Fin 0 else Fin 4)) \<and>
   smiles_handleFilterChange
       (c\<lparr>logpRange := lr, hbdMax := hm, tpsaRange := tr, qedMin := q, sasMax := sa\<rparr>) t =
     smiles_handleFilterChange c t \<and>
   (lipinskiCompliant c \<and> r \<in> set (filteredResults (smiles_handleFilterChange c t)) \<and>
      js_le (Fin 0) (violations (lipinski r)) \<longrightarrow> violations (lipinski r) = Fin 0) \<and>
   (\<not> lipinskiCompliant c \<and> r \<in> set (filteredResults (smiles_handleFilterChange c t)) \<longrightarrow>
      js_le (violations (lipinski r)) (Fin 4))"
proof -
  have keep: "smiles_keep c = analyzer_profile c"
    by (rule ext) (rule analyzer_profile_keep)
  have same: "smiles_keep (c\<lparr>logpRange := lr, hbdMax := hm, tpsaRange := tr, qedMin := q, sasMax := sa\<rparr>)
      = smiles_keep c"
    by (rule ext) (simp add: smiles_keep_def)
  have zero: "js_le v (Fin 0) \<Longrightarrow> js_le (Fin 0) v \<Longrightarrow> v = Fin 0" for v
    by (cases v) (auto simp: js_le_def split: bool.splits)
  show ?thesis
    by (simp add: smiles_handleFilterChange_def keep same)
       (auto simp: analyzer_profile_def zero)
qed

theorem smiles_filter_characterization_witness:
  "filteredResults
     (smiles_handleFilterChange (default_criteria\<lparr>lipinskiCompliant := True\<rparr>) batch_session) =
     [aspirin_result] \<and>
   filteredResults
     (smiles_handleFilterChange default_criteria
        \<lparr> batchResults =
            [aspirin_result\<lparr>lipinski := (lipinski aspirin_result)\<lparr>violations := Fin 5\<rparr>\<rparr>,
             biphenyl_result],
          filteredResults = [], showFilters = True \<rparr>) =
     [biphenyl_result] \<and>
   lipinskiCompliant (default_criteria\<lparr>lipinskiCompliant := True\<rparr>) \<and>
   aspirin_result \<in> set (filteredResults
     (smiles_handleFilterChange (default_criteria\<lparr>lipinskiCompliant := True\<rparr>) batch_session)) \<and>
   js_le (Fin 0) (violations (lipinski aspirin_result)) \<and>
   violations (lipinski aspirin_result) = Fin 0 \<and>
   \<not> lipinskiCompliant default_criteria \<and>
   biphenyl_result \<in> set (filteredResults (smiles_handleFilterChange default_criteria batch_session)) \<and>
   js_le (violations (lipinski biphenyl_result)) (Fin 4)"
  using smiles_filter_characterization [of "default_criteria\<lparr>lipinskiCompliant := True\<rparr>"
      batch_session aspirin_result]
    smiles_filter_characterization [of default_criteria
      "\<lparr> batchResults =
            [aspirin_result\<lparr>lipinski := (lipinski aspirin_result)\<lparr>violations := Fin 5\<rparr>\<rparr>,
             biphenyl_result],
          filteredResults = [], showFilters = True \<rparr>"]
    smiles_filter_characterization [of default_criteria batch_session biphenyl_result]
  by (simp add: batch_session_def default_criteria_def analyzer_profile_def
      aspirin_result_def biphenyl_result_def)

text \<open>
  Claim C9. For any criteria and any analyzer session, the results kept with
  \<open>lipinskiCompliant\<close> set are among those kept with it clear, so they are no more
  in number; they are exactly the latter without the results whose violation count
  is greater than 0. In the generator module the flag makes no difference.
\<close>

theorem lipinski_monotone:
  "set (filteredResults (smiles_handleFilterChange (c\<lparr>lipinskiCompliant := True\<rparr>) t))
     \<subseteq> set (filteredResults (smiles_handleFilterChange (c\<lparr>lipinskiCompliant := False\<rparr>) t)) \<and>
   length (filteredResults (smiles_handleFilterChange (c\<lparr>lipinskiCompliant := True\<rparr>) t))
     \<le> length (filteredResults (smiles_handleFilterChange (c\<lparr>lipinskiCompliant := False\<rparr>) t)) \<and>
   filteredResults (smiles_handleFilterChange (c\<lparr>lipinskiCompliant := True\<rparr>) t) =
     filter (\<lambda>r. \<not> js_gt (violations (lipinski r)) (Fin 0))
       (filteredResults (smiles_handleFilterChange (c\<lparr>lipinskiCompliant := False\<rparr>) t)) \<and>
   filteredMolecules (vae_handleFilterChange (c\<lparr>lipinskiCompliant := True\<rparr>) s) =
     filteredMolecules (vae_handleFilterChange (c\<lparr>lipinskiCompliant := False\<rparr>) s)"
proof -
  let ?T = "filteredResults (smiles_handleFilterChange (c\<lparr>lipinskiCompliant := True\<rparr>) t)"
  let ?F = "filteredResults (smiles_handleFilterChange (c\<lparr>lipinskiCompliant := False\<rparr>) t)"
  have pt: "smiles_keep (c\<lparr>lipinskiCompliant := True\<rparr>) r =
      (\<not> js_gt (violations (lipinski r)) (Fin 0) \<and> smiles_keep (c\<lparr>lipinskiCompliant := False\<rparr>) r)" for r
    using le_zero_iff [of "violations (lipinski r)"] by (auto simp: smiles_keep_def Let_def)
  have eq: "?T = filter (\<lambda>r. \<not> js_gt (violations (lipinski r)) (Fin 0)) ?F"
    by (simp add: smiles_handleFilterChange_def) (rule filter_cong, simp, simp add: pt conj_commute)
  have sub: "set ?T \<subseteq> set ?F"
    by (subst eq) auto
  have len: "length ?T \<le> length ?F"
    by (subst eq) (rule length_filter_le)
  have vae: "filteredMolecules (vae_handleFilterChange (c\<lparr>lipinskiCompliant := True\<rparr>) s) =
     filteredMolecules (vae_handleFilterChange (c\<lparr>lipinskiCompliant := False\<rparr>) s)"
    by (simp add: vae_handleFilterChange_def vae_keep_lipinski)
  from eq sub len vae show ?thesis by blast
qed

theorem lipinski_monotone_witness:
  "filteredResults
     (smiles_handleFilterChange (default_criteria\<lparr>lipinskiCompliant := False\<rparr>) batch_session) =
     [aspirin_result, biphenyl_result] \<and>
   filteredResults
     (smiles_handleFilterChange (default_criteria\<lparr>lipinskiCompliant := True\<rparr>) batch_session) =
     [aspirin_result]"
proof -
  have f: "filteredResults
     (smiles_handleFilterChange (default_criteria\<lparr>lipinskiCompliant := False\<rparr>) batch_session) =
     [aspirin_result, biphenyl_result]"
    by (simp add: smiles_handleFilterChange_def batch_session_def default_criteria_def
        smiles_keep_def js_ge_iff_le aspirin_result_def biphenyl_result_def)
  show ?thesis
    using lipinski_monotone [of default_criteria batch_session] f
    by (simp add: aspirin_result_def biphenyl_result_def)
qed

text \<open>
  Claim C7. When \<open>mwRange[0] > mwRange[1]\<close>, no weight at all (finite or not)
  satisfies the weight conjunct, neither predicate keeps any record, and both modules
  store the empty list: the endpoints are used as given. The filter functions have no
  branch that fails.
\<close>

theorem inverted_range_matches_nothing:
  assumes "js_gt (fst (mwRange c)) (snd (mwRange c))"
  shows "filteredMolecules (vae_handleFilterChange c s) = [] \<and>
         filteredResults (smiles_handleFilterChange c t) = [] \<and>
         \<not> vae_keep c m \<and> \<not> smiles_keep c r \<and>
         \<not> (js_le (fst (mwRange c)) x \<and> js_le x (snd (mwRange c)))"
proof -
  have mw: "\<not> (js_ge y (fst (mwRange c)) \<and> js_le y (snd (mwRange c)))" for y
    using assms by (rule inverted_range_empty)
  have v: "\<not> vae_keep c m'" for m'
    using mw [of "mw (properties m')"] by (auto simp: vae_keep_def Let_def)
  have a: "\<not> smiles_keep c r'" for r'
    using mw [of "molecularWeight r'"] by (auto simp: smiles_keep_def Let_def)
  show ?thesis
    using v a mw [of x] by (simp add: vae_handleFilterChange_def smiles_handleFilterChange_def js_ge_iff_le)
qed

theorem inverted_range_matches_nothing_witness:
  "js_gt (fst (mwRange (default_criteria\<lparr>mwRange := (Fin 500, Fin 100)\<rparr>)))
         (snd (mwRange (default_criteria\<lparr>mwRange := (Fin 500, Fin 100)\<rparr>))) \<and>
   filteredMolecules
     (vae_handleFilterChange (default_criteria\<lparr>mwRange := (Fin 500, Fin 100)\<rparr>) generated_session) = [] \<and>
   filteredResults
     (smiles_handleFilterChange (default_criteria\<lparr>mwRange := (Fin 500, Fin 100)\<rparr>) batch_session) = [] \<and>
   \<not> vae_keep (default_criteria\<lparr>mwRange := (Fin 500, Fin 100)\<rparr>) (mockMolecules ! 2)"
proof -
  have h: "js_gt (fst (mwRange (default_criteria\<lparr>mwRange := (Fin 500, Fin 100)\<rparr>)))
         (snd (mwRange (default_criteria\<lparr>mwRange := (Fin 500, Fin 100)\<rparr>)))"
    by simp
  show ?thesis
    using h inverted_range_matches_nothing [OF h, of generated_session batch_session "mockMolecules ! 2"]
    by simp
qed

text \<open>
  Claim C8. The criteria built after a reset, and those built from the initial state of
  the panel, are the default criteria. Applied to a generator session whose molecules
  all lie within the default bounds, they store the source list itself; likewise for
  an analyzer session whose results have a weight in [0, 1000], at most 20 heteroatoms
  and at most 4 violations.
\<close>

theorem default_criteria_identity:
  "applyFilters (resetFilters p) = default_criteria \<and>
   applyFilters initialFilter = default_criteria \<and>
   ((\<forall>m \<in> set (generatedMolecules s).
        js_le (Fin 0) (mw (properties m)) \<and> js_le (mw (properties m)) (Fin 1000) \<and>
        js_le (Fin (- 5)) (logp (properties m)) \<and> js_le (logp (properties m)) (Fin 5) \<and>
        js_le (hbd (properties m)) (Fin 10) \<and> js_le (hba (properties m)) (Fin 20) \<and>
        js_le (Fin 0) (tpsa (properties m)) \<and> js_le (tpsa (properties m)) (Fin 200) \<and>
        js_le (Fin 0) (drugLikeness m)) \<longrightarrow>
     filteredMolecules (vae_handleFilterChange (applyFilters (resetFilters p)) s) =
       generatedMolecules s) \<and>
   ((\<forall>r \<in> set (batchResults t).
        js_le (Fin 0) (molecularWeight r) \<and> js_le (molecularWeight r) (Fin 1000) \<and>
        js_le (heteroatoms r) (Fin 20) \<and> js_le (violations (lipinski r)) (Fin 4)) \<longrightarrow>
     filteredResults (smiles_handleFilterChange (applyFilters (resetFilters p)) t) =
       batchResults t)"
  by (simp add: reset_is_default initial_is_default vae_handleFilterChange_def
      smiles_handleFilterChange_def vae_keep_def smiles_keep_def js_ge_iff_le
      default_criteria_def filter_id_conv)

theorem default_criteria_identity_witness:
  "filteredMolecules
     (vae_handleFilterChange (applyFilters (resetFilters initialFilter)) generated_session) =
     mockMolecules \<and>
   filteredResults
     (smiles_handleFilterChange (applyFilters (resetFilters initialFilter)) batch_session) =
     [aspirin_result, biphenyl_result]"
  using default_criteria_identity [of initialFilter generated_session batch_session]
  by (simp add: reset_is_default generated_session_def batch_session_def mockMolecules_def
      aspirin_result_def biphenyl_result_def)

section \<open>Properties of the export\<close>

text \<open>
  Claim C3. For a non-empty list of flat records the CSV text is the header line of the
  first record followed, for each record in order, by a line break and the line of
  that record. A header line is the record's keys with a comma between neighbours; a
  record's line is its values, in its own order, with a comma between neighbours; a
  string stands verbatim, a boolean as \<open>true\<close> or \<open>false\<close>, a number as the
  runtime prints it; nothing is quoted or escaped. For the one record
  \<open>{SMILES: "CCO", Valid: true, MolecularWeight: 46.07}\<close> the text is the header
  \<open>SMILES,Valid,MolecularWeight\<close>, a line break, and \<open>CCO,true,46.07\<close>, given
  that the runtime prints the number 46.07 as \<open>46.07\<close>. Both modules hand this text
  of their rows to the download.
\<close>

theorem csv_format:
  "(data \<noteq> [] \<longrightarrow>
      csv_text ns data =
        Inr (header_line (hd data) @ concat (map (\<lambda>row. newline # row_line ns row) data))) \<and>
   header_line (kv # obj) = fst kv @ concat (map (\<lambda>k. '','' @ k) (map fst obj)) \<and>
   row_line ns (kv # obj) =
     toString ns (snd kv) @ concat (map (\<lambda>v. '','' @ toString ns v) (map snd obj)) \<and>
   header_line [] = [] \<and> row_line ns [] = [] \<and>
   toString ns (Str str) = str \<and>
   toString ns (Bool True) = ''true'' \<and> toString ns (Bool False) = ''false'' \<and>
   toString ns (Num n) = ns n \<and>
   (ns (Fin 46.07) = ''46.07'' \<longrightarrow>
      csv_text ns [[(''SMILES'', Str ''CCO''), (''Valid'', Bool True),
                    (''MolecularWeight'', Num (Fin 46.07))]] =
        Inr (''SMILES,Valid,MolecularWeight'' @ [newline] @ ''CCO,true,46.07'')) \<and>
   snd (smiles_exportResults ns t) =
     (if batchResults t = [] then Inl NoDataToExport
      else Inr (''smiles_analysis_results.csv'', csv_lines ns (map smiles_row (batchResults t)))) \<and>
   snd (vae_exportResults ns s) =
     (if generatedMolecules s = [] then Inl NoDataToExport
      else Inr (''vae_generated_molecules.csv'', csv_lines ns (map vae_row (generatedMolecules s))))"
proof -
  have a: "data \<noteq> [] \<longrightarrow>
      csv_text ns data =
        Inr (header_line (hd data) @ concat (map (\<lambda>row. newline # row_line ns row) data))"
    by (simp add: csv_text_lines csv_lines_def)
  have b: "header_line (kv # obj) = fst kv @ concat (map (\<lambda>k. '','' @ k) (map fst obj))"
    "row_line ns (kv # obj) =
     toString ns (snd kv) @ concat (map (\<lambda>v. '','' @ toString ns v) (map snd obj))"
    "header_line [] = []" "row_line ns [] = []"
    by (simp_all add: header_line_def row_line_def object_keys_def object_values_def join_Cons
        comp_def)
  have c: "toString ns (Str str) = str" "toString ns (Bool True) = ''true''"
    "toString ns (Bool False) = ''false''" "toString ns (Num n) = ns n"
    by (simp_all add: toString_def)
  have d: "ns (Fin 46.07) = ''46.07'' \<longrightarrow>
      csv_text ns [[(''SMILES'', Str ''CCO''), (''Valid'', Bool True),
                    (''MolecularWeight'', Num (Fin 46.07))]] =
        Inr (''SMILES,Valid,MolecularWeight'' @ [newline] @ ''CCO,true,46.07'')"
    by (simp add: csv_text_def object_keys_def object_values_def toString_def)
  have e: "snd (smiles_exportResults ns t) =
     (if batchResults t = [] then Inl NoDataToExport
      else Inr (''smiles_analysis_results.csv'', csv_lines ns (map smiles_row (batchResults t))))"
    "snd (vae_exportResults ns s) =
     (if generatedMolecules s = [] then Inl NoDataToExport
      else Inr (''vae_generated_molecules.csv'', csv_lines ns (map vae_row (generatedMolecules s))))"
    by (simp_all only: smiles_export_eq vae_export_eq smiles_export_data_def vae_export_data_def)
  from a b c d e show ?thesis by (intro conjI)
qed

theorem csv_format_witness:
  "csv_text show_number
     [[(''SMILES'', Str ''CCO''), (''Valid'', Bool True), (''MolecularWeight'', Num (Fin 46.07))]] =
   Inr (''SMILES,Valid,MolecularWeight'' @ [newline] @ ''CCO,true,46.07'')"
proof -
  have h: "show_number (Fin 46.07) = ''46.07''"
    by code_simp
  show ?thesis
    using csv_format [where ns = show_number] h by blast
qed

text \<open>
  Claim C4, amended. The rows an export serializes are those of the module's whole
  source list (\<open>batchResults\<close>, \<open>generatedMolecules\<close>), whether or not criteria
  have been applied: applying criteria changes neither the rows nor the outcome of
  the export, and the rows of the rendered list are a subsequence of the exported
  rows.
\<close>

theorem export_takes_source_list:
  "smiles_export_data (smiles_handleFilterChange c t) = map smiles_row (batchResults t) \<and>
   snd (smiles_exportResults ns (smiles_handleFilterChange c t)) = snd (smiles_exportResults ns t) \<and>
   subseq (map smiles_row (smiles_rendered (smiles_handleFilterChange c t)))
          (smiles_export_data (smiles_handleFilterChange c t)) \<and>
   vae_export_data (vae_handleFilterChange c s) = map vae_row (generatedMolecules s) \<and>
   snd (vae_exportResults ns (vae_handleFilterChange c s)) = snd (vae_exportResults ns s) \<and>
   subseq (map vae_row (vae_rendered (vae_handleFilterChange c s)))
          (vae_export_data (vae_handleFilterChange c s))"
proof -
  have a: "batchResults (smiles_handleFilterChange c t) = batchResults t"
    by (simp add: smiles_handleFilterChange_def)
  have v: "generatedMolecules (vae_handleFilterChange c s) = generatedMolecules s"
    by (simp add: vae_handleFilterChange_def)
  have ar: "subseq (smiles_rendered (smiles_handleFilterChange c t)) (batchResults t)"
    by (simp add: smiles_rendered_def smiles_handleFilterChange_def)
  have vr: "subseq (vae_rendered (vae_handleFilterChange c s)) (generatedMolecules s)"
    by (simp add: vae_rendered_def vae_handleFilterChange_def)
  show ?thesis
    using ar vr
    by (simp add: smiles_export_eq vae_export_eq smiles_export_data_def vae_export_data_def a v
        subseq_map)
qed

theorem export_takes_source_list_witness:
  "smiles_export_data
     (smiles_handleFilterChange (default_criteria\<lparr>mwRange := (Fin 0, Fin 500)\<rparr>) batch_session) =
   [smiles_row aspirin_result, smiles_row biphenyl_result]"
  using export_takes_source_list [of "default_criteria\<lparr>mwRange := (Fin 0, Fin 500)\<rparr>" batch_session]
  by (simp add: batch_session_def)

text \<open>
  With the filter panel open and the weight range set to [0, 500], the analyzer renders
  one of its two results, and the export still serializes both.
\<close>

theorem export_filtered_list_counterexample:
  "smiles_rendered
     (smiles_handleFilterChange (default_criteria\<lparr>mwRange := (Fin 0, Fin 500)\<rparr>) batch_session) =
     [aspirin_result] \<and>
   filteredResults
     (smiles_handleFilterChange (default_criteria\<lparr>mwRange := (Fin 0, Fin 500)\<rparr>) batch_session) =
     [aspirin_result] \<and>
   smiles_export_data
     (smiles_handleFilterChange (default_criteria\<lparr>mwRange := (Fin 0, Fin 500)\<rparr>) batch_session) =
     [smiles_row aspirin_result, smiles_row biphenyl_result] \<and>
   smiles_export_data
     (smiles_handleFilterChange (default_criteria\<lparr>mwRange := (Fin 0, Fin 500)\<rparr>) batch_session) \<noteq>
   map smiles_row
     (filteredResults
        (smiles_handleFilterChange (default_criteria\<lparr>mwRange := (Fin 0, Fin 500)\<rparr>) batch_session))"
  by (simp add: smiles_rendered_def smiles_handleFilterChange_def smiles_export_data_def
      batch_session_def default_criteria_def smiles_keep_def js_ge_iff_le
      aspirin_result_def biphenyl_result_def)

text \<open>
  Claim C6. An export ends in the "No Data to Export" notification exactly when the
  source list is empty, and in a download with a CSV text exactly when it is not; it
  never ends in "Export Failed", and it returns the state it was given. The
  expression that builds the text yields no text for an empty array either.
\<close>

theorem empty_export:
  "(snd (smiles_exportResults ns t) = Inl NoDataToExport \<longleftrightarrow> batchResults t = []) \<and>
   ((\<exists>csv. snd (smiles_exportResults ns t) = Inr (''smiles_analysis_results.csv'', csv)) \<longleftrightarrow>
      batchResults t \<noteq> []) \<and>
   snd (smiles_exportResults ns t) \<noteq> Inl ExportFailed \<and>
   fst (smiles_exportResults ns t) = t \<and>
   (snd (vae_exportResults ns s) = Inl NoDataToExport \<longleftrightarrow> generatedMolecules s = []) \<and>
   ((\<exists>csv. snd (vae_exportResults ns s) = Inr (''vae_generated_molecules.csv'', csv)) \<longleftrightarrow>
      generatedMolecules s \<noteq> []) \<and>
   snd (vae_exportResults ns s) \<noteq> Inl ExportFailed \<and>
   fst (vae_exportResults ns s) = s \<and>
   csv_text ns [] = Inl TypeError"
  by (simp add: smiles_export_eq vae_export_eq smiles_export_state vae_export_state csv_text_def)

theorem empty_export_witness:
  "smiles_exportResults show_number \<lparr>batchResults = [], filteredResults = [], showFilters = False\<rparr> =
     (\<lparr>batchResults = [], filteredResults = [], showFilters = False\<rparr>, Inl NoDataToExport) \<and>
   vae_exportResults show_number
     \<lparr>generatedMolecules = [], filteredMolecules = [], vae_showFilters = False\<rparr> =
     (\<lparr>generatedMolecules = [], filteredMolecules = [], vae_showFilters = False\<rparr>,
      Inl NoDataToExport) \<and>
   (\<exists>csv. snd (smiles_exportResults show_number batch_session) =
      Inr (''smiles_analysis_results.csv'', csv))"
  using empty_export [of show_number
      "\<lparr>batchResults = [], filteredResults = [], showFilters = False\<rparr>"
      "\<lparr>generatedMolecules = [], filteredMolecules = [], vae_showFilters = False\<rparr>"]
    empty_export [of show_number batch_session]
  by (simp add: prod_eq_iff batch_session_def)

text \<open>
  Claim C10. When the source list of a module holds \<open>n > 0\<close> records and no
  exported value prints with a line break in it, the exported text has exactly \<open>n\<close>
  line breaks; split at them it is the header line followed by the lines of the
  records in order, \<open>n + 1\<close> lines in all; and it is not empty and does not end in a
  line break.
\<close>

theorem csv_line_count:
  "(batchResults t \<noteq> [] \<and>
    (\<forall>r \<in> set (batchResults t). \<forall>v \<in> set (object_values (smiles_row r)).
        newline \<notin> set (toString ns v)) \<longrightarrow>
    (\<exists>csv. snd (smiles_exportResults ns t) = Inr (''smiles_analysis_results.csv'', csv) \<and>
       count_list csv newline = length (batchResults t) \<and>
       split_lines csv =
         header_line (smiles_row (hd (batchResults t))) #
         map (\<lambda>r. row_line ns (smiles_row r)) (batchResults t) \<and>
       length (split_lines csv) = length (batchResults t) + 1 \<and>
       csv \<noteq> [] \<and> last csv \<noteq> newline)) \<and>
   (generatedMolecules s \<noteq> [] \<and>
    (\<forall>m \<in> set (generatedMolecules s). \<forall>v \<in> set (object_values (vae_row m)).
        newline \<notin> set (toString ns v)) \<longrightarrow>
    (\<exists>csv. snd (vae_exportResults ns s) = Inr (''vae_generated_molecules.csv'', csv) \<and>
       count_list csv newline = length (generatedMolecules s) \<and>
       split_lines csv =
         header_line (vae_row (hd (generatedMolecules s))) #
         map (\<lambda>m. row_line ns (vae_row m)) (generatedMolecules s) \<and>
       length (split_lines csv) = length (generatedMolecules s) + 1 \<and>
       csv \<noteq> [] \<and> last csv \<noteq> newline))"
proof (intro conjI impI)
  assume h: "batchResults t \<noteq> [] \<and>
    (\<forall>r \<in> set (batchResults t). \<forall>v \<in> set (object_values (smiles_row r)).
        newline \<notin> set (toString ns v))"
  let ?data = "smiles_export_data t"
  have ne: "?data \<noteq> []" using h by (simp add: smiles_export_data_def)
  have hd: "newline \<notin> set (header_line (hd ?data))"
    using h by (simp add: smiles_export_data_def hd_map smiles_header_no_newline)
  have rows: "\<forall>row \<in> set ?data. newline \<notin> set (row_line ns row)"
    using h by (auto simp: smiles_export_data_def intro!: row_line_no_newline)
  have lst: "row_line ns (last ?data) \<noteq> []"
    using h by (simp add: smiles_export_data_def last_map smiles_row_line_nonempty)
  note shape = csv_lines_shape [OF ne hd rows lst]
  show "\<exists>csv. snd (smiles_exportResults ns t) = Inr (''smiles_analysis_results.csv'', csv) \<and>
       count_list csv newline = length (batchResults t) \<and>
       split_lines csv =
         header_line (smiles_row (hd (batchResults t))) #
         map (\<lambda>r. row_line ns (smiles_row r)) (batchResults t) \<and>
       length (split_lines csv) = length (batchResults t) + 1 \<and>
       csv \<noteq> [] \<and> last csv \<noteq> newline"
    using h shape
    by (intro exI [of _ "csv_lines ns ?data"])
       (simp add: smiles_export_eq smiles_export_data_def hd_map comp_def)
next
  assume h: "generatedMolecules s \<noteq> [] \<and>
    (\<forall>m \<in> set (generatedMolecules s). \<forall>v \<in> set (object_values (vae_row m)).
        newline \<notin> set (toString ns v))"
  let ?data = "vae_export_data s"
  have ne: "?data \<noteq> []" using h by (simp add: vae_export_data_def)
  have hd: "newline \<notin> set (header_line (hd ?data))"
    using h by (simp add: vae_export_data_def hd_map vae_header_no_newline)
  have rows: "\<forall>row \<in> set ?data. newline \<notin> set (row_line ns row)"
    using h by (auto simp: vae_export_data_def intro!: row_line_no_newline)
  have lst: "row_line ns (last ?data) \<noteq> []"
    using h by (simp add: vae_export_data_def last_map vae_row_line_nonempty)
  note shape = csv_lines_shape [OF ne hd rows lst]
  show "\<exists>csv. snd (vae_exportResults ns s) = Inr (''vae_generated_molecules.csv'', csv) \<and>
       count_list csv newline = length (generatedMolecules s) \<and>
       split_lines csv =
         header_line (vae_row (hd (generatedMolecules s))) #
         map (\<lambda>m. row_line ns (vae_row m)) (generatedMolecules s) \<and>
       length (split_lines csv) = length (generatedMolecules s) + 1 \<and>
       csv \<noteq> [] \<and> last csv \<noteq> newline"
    using h shape
    by (intro exI [of _ "csv_lines ns ?data"])
       (simp add: vae_export_eq vae_export_data_def hd_map comp_def)
qed

theorem csv_line_count_witness:
  "batchResults batch_session \<noteq> [] \<and> generatedMolecules generated_session \<noteq> [] \<and>
   (\<exists>csv. snd (smiles_exportResults show_number batch_session) =
            Inr (''smiles_analysis_results.csv'', csv) \<and>
          count_list csv newline = 2 \<and> length (split_lines csv) = 3 \<and> last csv \<noteq> newline) \<and>
   (\<exists>csv. snd (vae_exportResults show_number generated_session) =
            Inr (''vae_generated_molecules.csv'', csv) \<and>
          count_list csv newline = 3 \<and> length (split_lines csv) = 4 \<and> last csv \<noteq> newline)"
proof -
  have a: "batchResults batch_session \<noteq> []"
    by (simp add: batch_session_def)
  have b: "\<forall>r \<in> set (batchResults batch_session). \<forall>v \<in> set (object_values (smiles_row r)).
        newline \<notin> set (toString show_number v)"
    by code_simp
  have c: "generatedMolecules generated_session \<noteq> []"
    by (simp add: generated_session_def mockMolecules_def)
  have d: "\<forall>m \<in> set (generatedMolecules generated_session). \<forall>v \<in> set (object_values (vae_row m)).
        newline \<notin> set (toString show_number v)"
    by code_simp
  have la: "length (batchResults batch_session) = 2"
    by (simp add: batch_session_def)
  have lc: "length (generatedMolecules generated_session) = 3"
    by (simp add: generated_session_def mockMolecules_def)
  show ?thesis
    using csv_line_count [of batch_session show_number generated_session] a b c d la lc
    by auto
qed

end
